theory Spec2Isabelle
  imports Complex_Main "HOL-Library.AList"
begin

section \<open>MoneyTalk: insight calculator, recommendation cache and fallback analyzer\<close>

text \<open>
  A shallow embedding of three pieces of the MoneyTalk web application:
  \<^item> the recommendation cache of the \<open>AIInsights\<close> component (mount effect,
    \<open>isCacheValid\<close>, \<open>generateAIRecommendations\<close>, \<open>handleManualRefresh\<close>);
  \<^item> \<open>generateBasicInsights\<close>, the trend, budget-alert and pattern calculator;
  \<^item> \<open>analyzeTranscriptFallback\<close>, the keyword heuristic of the analysis endpoint.

  Conventions of the model.
  \<^item> A JavaScript \<open>number\<close> that holds money or a percentage is an exact rational
    (\<^typ>\<open>rat\<close>): the rounding of IEEE doubles and the values NaN and Infinity are not
    modelled.
  \<^item> A point in time (\<open>Date\<close>, \<open>Date.now()\<close>, a parsed \<open>created_at\<close>) is an
    \<^typ>\<open>int\<close>, the milliseconds since the Unix epoch.
  \<^item> The browser's time zone is a fixed offset \<open>tz\<close> in milliseconds (local time is
    UTC time plus \<open>tz\<close>); daylight-saving transitions are not modelled.
  \<^item> A JavaScript string is a \<^typ>\<open>string\<close> of ASCII characters.
\<close>

subsection \<open>Recommendation cache of the AIInsights component\<close>

datatype Impact = high | medium | low

record AIRecommendation =
  rec_type :: string
  rec_title :: string
  rec_description :: string
  impact :: Impact
  savings :: "rat option"
  actionItems :: "string list option"
  economicContext :: "string option"
  rec_confidence :: rat

record CachedAIRecommendations =
  data :: "AIRecommendation list"
  timestamp :: int

text \<open>
  The item stored under the key \<open>ai-recommendations-cache\<close> of \<open>localStorage\<close>: either
  text on which \<open>JSON.parse\<close> (or the property access that follows) throws, or a parsed
  cache object with a numeric \<open>timestamp\<close>. An empty string behaves like no item; a
  parsed value without a numeric \<open>timestamp\<close>, which the source clears, is not modelled.
\<close>

datatype StoredItem = Malformed | Json CachedAIRecommendations

text \<open>
  The React state of the component that the cache code reads and writes, together with
  the \<open>localStorage\<close> slot. \<open>fetchCalls\<close> is not a variable of the source: it counts the
  invocations of \<open>fetchAIRecommendations\<close>, the only place where a recommendation
  request is issued.
\<close>

record AIInsightsState =
  aiRecommendations :: "AIRecommendation list"
  cachedAIRecommendations :: "CachedAIRecommendations option"
  isRefreshingAI :: bool
  lastAIRefresh :: "int option"
  aiRecommendationsError :: string
  localStorage :: "StoredItem option"
  fetchCalls :: nat

definition cacheValidDuration :: int where
  "cacheValidDuration = 7 * 24 * 60 * 60 * 1000"

text \<open>The mount effect (\<open>useEffect(..., [])\<close>): load the stored cache at time \<open>now\<close>.\<close>

definition loadCachedRecommendations :: "int \<Rightarrow> AIInsightsState \<Rightarrow> AIInsightsState" where
  "loadCachedRecommendations now s =
     (case localStorage s of
        None \<Rightarrow> s
      | Some Malformed \<Rightarrow> s
      | Some (Json parsedCache) \<Rightarrow>
          if now - timestamp parsedCache < cacheValidDuration
          then s\<lparr>cachedAIRecommendations := Some parsedCache,
                 aiRecommendations := data parsedCache,
                 lastAIRefresh := Some (timestamp parsedCache)\<rparr>
          else s\<lparr>cachedAIRecommendations := None,
                 aiRecommendations := [],
                 lastAIRefresh := None,
                 localStorage := None\<rparr>)"

definition isCacheValid :: "int \<Rightarrow> AIInsightsState \<Rightarrow> bool" where
  "isCacheValid now s =
     (case cachedAIRecommendations s of
        None \<Rightarrow> False
      | Some c \<Rightarrow> now - timestamp c < cacheValidDuration)"

definition generationErrorMessage :: string where
  "generationErrorMessage =
     ''Failed to generate AI recommendations. Please try refreshing manually.''"

text \<open>
  \<open>generateAIRecommendations\<close>, from its call to the state in which its promise settles.
  \<open>n\<close> is the number of transactions of the component; \<open>outcome\<close> is what
  \<open>await fetchAIRecommendations(...)\<close> does: \<open>Inl e\<close> when it throws (no user, network
  failure, non-2xx response, unparsable body), \<open>Inr recs\<close> when it returns; \<open>now\<close> is
  the value of \<open>Date.now()\<close> after the fetch, \<open>refreshed\<close> the value of \<open>new Date()\<close>
  two statements later; \<open>stored\<close> tells whether \<open>localStorage.setItem\<close> succeeded (its
  exception is caught and logged).
\<close>

definition generateAIRecommendations ::
  "nat \<Rightarrow> string + AIRecommendation list \<Rightarrow> int \<Rightarrow> int \<Rightarrow> bool \<Rightarrow>
   AIInsightsState \<Rightarrow> AIInsightsState" where
  "generateAIRecommendations n outcome now refreshed stored s =
     (if n = 0 then s
      else
        let s1 = s\<lparr>isRefreshingAI := True, aiRecommendationsError := [],
                    fetchCalls := Suc (fetchCalls s)\<rparr>;
            s2 = (case outcome of
                    Inr recommendations \<Rightarrow>
                      let newCachedRecommendations =
                            \<lparr>data = recommendations, timestamp = now\<rparr>
                      in s1\<lparr>cachedAIRecommendations := Some newCachedRecommendations,
                             aiRecommendations := recommendations,
                             lastAIRefresh := Some refreshed,
                             localStorage :=
                               (if stored then Some (Json newCachedRecommendations)
                                else localStorage s1)\<rparr>
                  | Inl e \<Rightarrow> s1\<lparr>aiRecommendationsError := generationErrorMessage\<rparr>)
        in s2\<lparr>isRefreshingAI := False\<rparr>)"

definition handleManualRefresh ::
  "nat \<Rightarrow> string + AIRecommendation list \<Rightarrow> int \<Rightarrow> int \<Rightarrow> bool \<Rightarrow>
   AIInsightsState \<Rightarrow> AIInsightsState" where
  "handleManualRefresh n outcome now refreshed stored s =
     generateAIRecommendations n outcome now refreshed stored
       (s\<lparr>localStorage := None, cachedAIRecommendations := None\<rparr>)"

subsection \<open>Fallback transcript analyzer (analysis endpoint)\<close>

datatype TransactionType = income | expense

text \<open>\<open>String.prototype.startsWith\<close> and \<open>String.prototype.includes\<close>.\<close>

fun startsWith :: "string \<Rightarrow> string \<Rightarrow> bool" where
  "startsWith s [] = True"
| "startsWith [] (k # ks) = False"
| "startsWith (c # cs) (k # ks) = (c = k \<and> startsWith cs ks)"

fun str_includes :: "string \<Rightarrow> string \<Rightarrow> bool" where
  "str_includes [] k = (k = [])"
| "str_includes (c # cs) k = (startsWith (c # cs) k \<or> str_includes cs k)"

text \<open>\<open>toLowerCase\<close> on ASCII: the letters A to Z are mapped, nothing else changes.\<close>

definition toLowerChar :: "char \<Rightarrow> char" where
  "toLowerChar c =
     (case map_of (zip ''ABCDEFGHIJKLMNOPQRSTUVWXYZ'' ''abcdefghijklmnopqrstuvwxyz'') c of
        None \<Rightarrow> c
      | Some l \<Rightarrow> l)"

definition toLowerCase :: "string \<Rightarrow> string" where
  "toLowerCase s = map toLowerChar s"

text \<open>The character class \<open>\\d\<close> and the value of a digit.\<close>

definition isDigit :: "char \<Rightarrow> bool" where
  "isDigit c = (c \<in> set ''0123456789'')"

definition digitValue :: "char \<Rightarrow> nat" where
  "digitValue c =
     (case map_of (zip ''0123456789'' [0, 1, 2, 3, 4, 5, 6, 7, 8, 9]) c of
        None \<Rightarrow> 0
      | Some d \<Rightarrow> d)"

text \<open>
  The regular expression \<open>/\\$?(\\d+(?:\\.\\d{2})?)/\<close>. \<open>matchNumber s\<close> matches
  \<open>\\d+(?:\\.\\d{2})?\<close> at the start of \<open>s\<close>: the longest run of digits, then a dot and
  two digits when they follow; it returns the matched text and the rest. \<open>matchHere s\<close>
  matches the whole expression at the start of \<open>s\<close>: with the dollar sign when a number
  follows it, without it otherwise; it returns capture group 1 and the rest.
  \<open>amountRegex s\<close> is the leftmost match in \<open>s\<close>, as \<open>String.prototype.match\<close> and
  \<open>replace\<close> find it: the text before the match, group 1 and the text after the match.
\<close>

definition matchNumber :: "string \<Rightarrow> (string \<times> string) option" where
  "matchNumber s =
     (let ds = takeWhile isDigit s; r = dropWhile isDigit s
      in if ds = [] then None
         else (case r of
                 p # a # b # r' \<Rightarrow>
                   if p = CHR ''.'' \<and> isDigit a \<and> isDigit b
                   then Some (ds @ [p, a, b], r')
                   else Some (ds, r)
               | _ \<Rightarrow> Some (ds, r)))"

definition matchHere :: "string \<Rightarrow> (string \<times> string) option" where
  "matchHere s =
     (case s of
        [] \<Rightarrow> None
      | c # cs \<Rightarrow>
          (case (if c = CHR ''$'' then matchNumber cs else None) of
             Some m \<Rightarrow> Some m
           | None \<Rightarrow> matchNumber s))"

fun amountRegex :: "string \<Rightarrow> (string \<times> string \<times> string) option" where
  "amountRegex [] = None"
| "amountRegex (c # cs) =
     (case matchHere (c # cs) of
        Some (g, r) \<Rightarrow> Some ([], g, r)
      | None \<Rightarrow>
          (case amountRegex cs of
             None \<Rightarrow> None
           | Some (before, g, r) \<Rightarrow> Some (c # before, g, r)))"

text \<open>\<open>parseFloat\<close> on capture group 1, digits with an optional two-digit fraction.\<close>

definition digitsValue :: "string \<Rightarrow> nat" where
  "digitsValue ds = foldl (\<lambda>a c. 10 * a + digitValue c) 0 ds"

definition parseFloat :: "string \<Rightarrow> rat" where
  "parseFloat g =
     (let whole = takeWhile isDigit g; fraction = drop (Suc (length whole)) g
      in of_nat (digitsValue whole) + of_nat (digitsValue fraction) / 10 ^ length fraction)"

text \<open>\<open>String.prototype.trim\<close> with the ASCII white space characters.\<close>

definition isSpace :: "char \<Rightarrow> bool" where
  "isSpace c = (c \<in> set [CHR '' '', CHR 0x09, CHR 0x0A, CHR 0x0B, CHR 0x0C, CHR 0x0D])"

definition trim :: "string \<Rightarrow> string" where
  "trim s = rev (dropWhile isSpace (rev (dropWhile isSpace s)))"

definition incomeKeywords :: "string list" where
  "incomeKeywords = [''salary'', ''income'', ''paid'', ''received'', ''earned'', ''bonus'', ''refund'']"

definition expenseKeywords :: "string list" where
  "expenseKeywords = [''spent'', ''bought'', ''paid for'', ''cost'', ''expense'', ''bill'']"

text \<open>The keyword table, in the order in which \<open>Object.entries\<close> enumerates it.\<close>

definition categories :: "(string \<times> string list) list" where
  "categories =
     [(''Groceries'', [''grocery'', ''groceries'', ''supermarket'', ''food shopping'', ''market'']),
      (''Food'', [''restaurant'', ''lunch'', ''dinner'', ''breakfast'', ''cafe'', ''food'']),
      (''Transport'', [''gas'', ''fuel'', ''taxi'', ''uber'', ''bus'', ''train'', ''transport'']),
      (''Shopping'', [''shopping'', ''store'', ''mall'', ''online'', ''amazon'', ''clothes'']),
      (''Bills'', [''bill'', ''electricity'', ''water'', ''internet'', ''phone'', ''rent'']),
      (''Drinks'', [''coffee'', ''beer'', ''wine'', ''drinks'', ''bar'', ''alcohol'']),
      (''Travel'', [''flight'', ''hotel'', ''vacation'', ''trip'', ''travel'']),
      (''Education'', [''school'', ''course'', ''book'', ''education'', ''tuition'']),
      (''Family'', [''family'', ''kids'', ''children'', ''babysitter'']),
      (''Salary'', [''salary'', ''paycheck'', ''wage'', ''income'']),
      (''Loans'', [''loan'', ''mortgage'', ''credit'', ''debt''])]"

text \<open>
  The loop over the table: the first category with a matching keyword wins, the
  confidence grows with the number of its keywords that match; \<open>Shopping\<close> with
  confidence 0.5 is the default.
\<close>

fun detectCategory :: "string \<Rightarrow> (string \<times> string list) list \<Rightarrow> string \<times> rat" where
  "detectCategory text [] = (''Shopping'', 1 / 2)"
| "detectCategory text ((category, keywords) # rest) =
     (let matches = length (filter (\<lambda>keyword. str_includes text keyword) keywords)
      in if matches > 0
         then (category, min (9 / 10) (6 / 10 + of_nat matches * (1 / 10)))
         else detectCategory text rest)"

record AudioAnalysis =
  analysis_type :: TransactionType
  analysis_category :: string
  analysis_amount :: rat
  analysis_description :: string
  confidence :: rat

text \<open>
  \<open>isExpense\<close> is computed by the source and never read. The amount is extracted from
  the lower-cased text, the description from the transcript as it was given.
\<close>

definition analyzeTranscriptFallback :: "string \<Rightarrow> AudioAnalysis" where
  "analyzeTranscriptFallback transcript =
     (let text = toLowerCase transcript;
          amountMatch = amountRegex text;
          amount = (case amountMatch of Some (before, g, r) \<Rightarrow> parseFloat g | None \<Rightarrow> 0);
          isIncome = list_ex (\<lambda>keyword. str_includes text keyword) incomeKeywords;
          isExpense = (list_ex (\<lambda>keyword. str_includes text keyword) expenseKeywords
                       \<or> amount > 0);
          type = (if isIncome then income else expense);
          detected = detectCategory text categories;
          detectedCategory = fst detected;
          description =
            (if amount > 0
             then (let d = (case amountRegex transcript of
                              Some (before, g, r) \<Rightarrow> trim (before @ r)
                            | None \<Rightarrow> trim transcript)
                   in if d = [] then detectedCategory @ '' transaction'' else d)
             else transcript)
      in \<lparr>analysis_type = type,
          analysis_category = detectedCategory,
          analysis_amount = amount,
          analysis_description =
            (if description = [] then detectedCategory @ '' transaction'' else description),
          confidence = snd detected\<rparr>)"

subsection \<open>Trend and insight calculator\<close>

record Transaction =
  tx_id :: string
  user_id :: string
  amount :: rat
  tx_type :: TransactionType
  category :: string
  description :: string
  audio_transcript :: "string option"
  created_at :: int
  updated_at :: int

record BudgetLimit =
  limit_category :: string
  monthly_limit :: rat

text \<open>
  A \<open>Record<string, number>\<close> built by \<open>reduce\<close> is an association list in the order
  in which the keys were first written. \<open>getOrZero acc k\<close> is \<open>acc[k] || 0\<close>. Categories
  are assumed not to be names of properties that every object inherits
  (\<open>constructor\<close>, \<open>toString\<close> and the like).
\<close>

definition getOrZero :: "(string \<times> rat) list \<Rightarrow> string \<Rightarrow> rat" where
  "getOrZero acc k = (case map_of acc k of None \<Rightarrow> 0 | Some v \<Rightarrow> v)"

definition addAmount :: "(string \<times> rat) list \<Rightarrow> Transaction \<Rightarrow> (string \<times> rat) list" where
  "addAmount acc t = AList.update (category t) (getOrZero acc (category t) + amount t) acc"

definition sumByCategory :: "Transaction list \<Rightarrow> (string \<times> rat) list" where
  "sumByCategory ts = foldl addAmount [] ts"

text \<open>
  \<open>Object.entries\<close> and \<open>Object.keys\<close> enumerate the keys that are array indices
  (canonical decimal numerals below \<open>2^32 - 1\<close>) first, in ascending numeric order,
  then the other keys in insertion order.
\<close>

definition isArrayIndex :: "string \<Rightarrow> bool" where
  "isArrayIndex k =
     (case k of
        [] \<Rightarrow> False
      | c # cs \<Rightarrow> list_all isDigit k \<and> (if cs = [] then True else c \<noteq> CHR ''0'')
                 \<and> digitsValue k < 4294967295)"

definition objectEntries :: "(string \<times> rat) list \<Rightarrow> (string \<times> rat) list" where
  "objectEntries obj =
     sort_key (\<lambda>e. digitsValue (fst e)) (filter (\<lambda>e. isArrayIndex (fst e)) obj)
     @ filter (\<lambda>e. \<not> isArrayIndex (fst e)) obj"

definition objectKeys :: "(string \<times> rat) list \<Rightarrow> string list" where
  "objectKeys obj = map fst (objectEntries obj)"

text \<open>\<open>Array.from(new Set(xs))\<close>: the first occurrence of every element, in order.\<close>

definition newSet :: "'a list \<Rightarrow> 'a list" where
  "newSet xs = rev (remdups (rev xs))"

text \<open>
  Modelled from the documentation of the date-fns library and of \<open>Date\<close>, which are
  not part of the repository: \<open>getDay\<close> (0 is Sunday; the epoch was a Thursday),
  \<open>startOfWeek\<close> and \<open>endOfWeek\<close> with the default first day Sunday (local midnight of
  the Sunday on or before the date; the last millisecond of the following Saturday),
  \<open>subWeeks\<close>, and \<open>isWithinInterval\<close> with both ends included (it is only called
  with a start that is not after the end, and with valid dates).
\<close>

definition msPerDay :: int where
  "msPerDay = 24 * 60 * 60 * 1000"

definition getDay :: "int \<Rightarrow> int \<Rightarrow> int" where
  "getDay tz d = ((d + tz) div msPerDay + 4) mod 7"

definition startOfWeek :: "int \<Rightarrow> int \<Rightarrow> int" where
  "startOfWeek tz d = ((d + tz) div msPerDay - getDay tz d) * msPerDay - tz"

definition endOfWeek :: "int \<Rightarrow> int \<Rightarrow> int" where
  "endOfWeek tz d = ((d + tz) div msPerDay + (6 - getDay tz d)) * msPerDay + (msPerDay - 1) - tz"

definition subWeeks :: "int \<Rightarrow> int \<Rightarrow> int" where
  "subWeeks d n = d - n * 7 * msPerDay"

definition isWithinInterval :: "int \<Rightarrow> int \<Rightarrow> int \<Rightarrow> bool" where
  "isWithinInterval d s e = (s \<le> d \<and> d \<le> e)"

text \<open>The two comparison windows and their per-category totals.\<close>

definition lastWeekTransactions :: "int \<Rightarrow> int \<Rightarrow> Transaction list \<Rightarrow> Transaction list" where
  "lastWeekTransactions now tz transactions =
     filter (\<lambda>t. tx_type t = expense
                \<and> isWithinInterval (created_at t)
                     (startOfWeek tz (subWeeks now 1)) (endOfWeek tz (subWeeks now 1)))
       transactions"

definition sameWeekLastMonthTransactions ::
  "int \<Rightarrow> int \<Rightarrow> Transaction list \<Rightarrow> Transaction list" where
  "sameWeekLastMonthTransactions now tz transactions =
     filter (\<lambda>t. tx_type t = expense
                \<and> isWithinInterval (created_at t)
                     (startOfWeek tz (subWeeks now 5)) (endOfWeek tz (subWeeks now 5)))
       transactions"

definition lastWeekCategorySpending ::
  "int \<Rightarrow> int \<Rightarrow> Transaction list \<Rightarrow> (string \<times> rat) list" where
  "lastWeekCategorySpending now tz transactions =
     sumByCategory (lastWeekTransactions now tz transactions)"

definition sameWeekLastMonthCategorySpending ::
  "int \<Rightarrow> int \<Rightarrow> Transaction list \<Rightarrow> (string \<times> rat) list" where
  "sameWeekLastMonthCategorySpending now tz transactions =
     sumByCategory (sameWeekLastMonthTransactions now tz transactions)"

datatype Trend = increasing | decreasing | stable

record SpendingTrend =
  trend_category :: string
  trend_amount :: rat
  lastMonthAmount :: rat
  trend :: Trend
  percentage :: rat
  isNew :: bool

text \<open>The body of the \<open>map\<close> callback that builds one trend entry.\<close>

definition spendingTrendOf ::
  "(string \<times> rat) list \<Rightarrow> (string \<times> rat) list \<Rightarrow> string \<Rightarrow> SpendingTrend" where
  "spendingTrendOf lastWeekSpending lastMonthSpending c =
     (let lastWeekAmount = getOrZero lastWeekSpending c;
          lastMonthAmt = getOrZero lastMonthSpending c;
          classified =
            (if lastMonthAmt > 0
             then (let p = ((lastWeekAmount - lastMonthAmt) / lastMonthAmt) * 100
                   in (if p > 5 then increasing else if p < - 5 then decreasing else stable, p))
             else if lastWeekAmount > 0 then (increasing, 100)
             else (stable, 0))
      in \<lparr>trend_category = c,
          trend_amount = lastWeekAmount,
          lastMonthAmount = lastMonthAmt,
          trend = fst classified,
          percentage = \<bar>snd classified\<bar>,
          isNew = (lastMonthAmt = 0 \<and> lastWeekAmount > 0)\<rparr>)"

definition allCategories :: "int \<Rightarrow> int \<Rightarrow> Transaction list \<Rightarrow> string list" where
  "allCategories now tz transactions =
     newSet (objectKeys (lastWeekCategorySpending now tz transactions)
             @ objectKeys (sameWeekLastMonthCategorySpending now tz transactions))"

text \<open>
  \<open>Array.prototype.sort\<close> is stable; with the comparator \<open>b.amount - a.amount\<close> it is
  the stable sort by descending amount.
\<close>

definition spendingTrendsOf :: "int \<Rightarrow> int \<Rightarrow> Transaction list \<Rightarrow> SpendingTrend list" where
  "spendingTrendsOf now tz transactions =
     take 5
       (sort_key (\<lambda>e. - trend_amount e)
          (filter (\<lambda>e. trend_amount e > 0)
             (map (spendingTrendOf (lastWeekCategorySpending now tz transactions)
                                   (sameWeekLastMonthCategorySpending now tz transactions))
                  (allCategories now tz transactions))))"

record BudgetAlert =
  alert_category :: string
  spent :: rat
  budget :: rat
  overBudget :: rat

definition categorySpending :: "Transaction list \<Rightarrow> (string \<times> rat) list" where
  "categorySpending transactions =
     sumByCategory (filter (\<lambda>t. tx_type t = expense) transactions)"

definition budgetAlertFor :: "BudgetLimit list \<Rightarrow> string \<times> rat \<Rightarrow> BudgetAlert list" where
  "budgetAlertFor budgetLimits e =
     (case find (\<lambda>b. limit_category b = fst e) budgetLimits of
        None \<Rightarrow> []
      | Some budgetLimit \<Rightarrow>
          if snd e > monthly_limit budgetLimit
          then [\<lparr>alert_category = fst e, spent = snd e, budget = monthly_limit budgetLimit,
                 overBudget = snd e - monthly_limit budgetLimit\<rparr>]
          else [])"

definition budgetAlertsOf :: "Transaction list \<Rightarrow> BudgetLimit list \<Rightarrow> BudgetAlert list" where
  "budgetAlertsOf transactions budgetLimits =
     concat (map (budgetAlertFor budgetLimits) (objectEntries (categorySpending transactions)))"

definition weekendSpending :: "int \<Rightarrow> Transaction list \<Rightarrow> rat" where
  "weekendSpending tz transactions =
     foldl (\<lambda>sum t. sum + amount t) 0
       (filter (\<lambda>t. tx_type t = expense
                  \<and> (getDay tz (created_at t) = 0 \<or> getDay tz (created_at t) = 6))
          transactions)"

definition weekdaySpending :: "int \<Rightarrow> Transaction list \<Rightarrow> rat" where
  "weekdaySpending tz transactions =
     foldl (\<lambda>sum t. sum + amount t) 0
       (filter (\<lambda>t. tx_type t = expense
                  \<and> getDay tz (created_at t) \<ge> 1 \<and> getDay tz (created_at t) \<le> 5)
          transactions)"

text \<open>
  A pattern. Its description is a template string; the model keeps the values the
  template shows: the weekend share, or the size and direction of the weekly change
  with the two ends of the earlier week.
\<close>

datatype PatternType = weekend_spending | historical_comparison

datatype PatternDescription =
  WeekendShare rat
| WeeklyChange rat bool int int

record Pattern =
  pattern_type :: PatternType
  title :: string
  pattern_description :: PatternDescription
  insight :: string

definition weekendPattern :: "int \<Rightarrow> Transaction list \<Rightarrow> Pattern list" where
  "weekendPattern tz transactions =
     (if weekendSpending tz transactions > 0 \<and> weekdaySpending tz transactions > 0
      then (let weekendPercentage =
                  (weekendSpending tz transactions
                   / (weekendSpending tz transactions + weekdaySpending tz transactions)) * 100
            in if weekendPercentage > 35
               then [\<lparr>pattern_type = weekend_spending,
                      title = ''High Weekend Spending Pattern'',
                      pattern_description = WeekendShare weekendPercentage,
                      insight = ''Consider planning weekend activities that align with your budget to reduce impulse spending.''\<rparr>]
               else [])
      else [])"

definition historicalPattern :: "int \<Rightarrow> int \<Rightarrow> SpendingTrend list \<Rightarrow> Pattern list" where
  "historicalPattern now tz trends =
     (if length trends > 0
      then (let totalLastWeek = foldl (\<lambda>sum e. sum + trend_amount e) 0 trends;
                totalSameWeekLastMonth = foldl (\<lambda>sum e. sum + lastMonthAmount e) 0 trends
            in if totalSameWeekLastMonth > 0
               then (let overallChange =
                           ((totalLastWeek - totalSameWeekLastMonth) / totalSameWeekLastMonth) * 100
                     in [\<lparr>pattern_type = historical_comparison,
                          title = ''Weekly Spending Comparison'',
                          pattern_description =
                            WeeklyChange \<bar>overallChange\<bar> (overallChange > 0)
                              (startOfWeek tz (subWeeks now 5)) (endOfWeek tz (subWeeks now 5)),
                          insight =
                            (if overallChange > 10
                             then ''Consider reviewing what drove the increase in spending last week.''
                             else if overallChange < - 10
                             then ''Great job reducing your spending compared to last month!''
                             else ''Your spending patterns are relatively consistent week-to-week.'')\<rparr>])
               else [])
      else [])"

record Insights =
  spendingTrends :: "SpendingTrend list"
  recommendations :: "AIRecommendation list"
  budgetAlerts :: "BudgetAlert list"
  patterns :: "Pattern list"

text \<open>
  \<open>generateBasicInsights\<close> at the time \<open>now\<close> in the time zone \<open>tz\<close>. The source also
  builds \<open>monthlyData\<close>, which it never reads.
\<close>

definition generateBasicInsights ::
  "int \<Rightarrow> int \<Rightarrow> Transaction list \<Rightarrow> BudgetLimit list \<Rightarrow> Insights" where
  "generateBasicInsights now tz transactions budgetLimits =
     (if length transactions = 0
      then \<lparr>spendingTrends = [], recommendations = [], budgetAlerts = [], patterns = []\<rparr>
      else \<lparr>spendingTrends = spendingTrendsOf now tz transactions,
            recommendations = [],
            budgetAlerts = budgetAlertsOf transactions budgetLimits,
            patterns = weekendPattern tz transactions
                       @ historicalPattern now tz (spendingTrendsOf now tz transactions)\<rparr>)"

text \<open>
  The budget analysis of \<open>prepareTransactionSummary\<close>, in the same component, compares
  the limits with the expenses of the current calendar month. \<open>getMonth\<close> and
  \<open>getFullYear\<close> of \<open>Date\<close> are modelled by the civil calendar (as is
  \<open>getDate\<close>, the day of the month): \<open>civilYear\<close>, \<open>civilMonth\<close> and \<open>civilDay\<close>
  give the year, the month (1 to 12) and the day of the month of the Gregorian calendar
  for a day number (days since the epoch, in local time), counting days in eras of 400 years
  that start on 1 March.
\<close>

definition yearOfEra :: "int \<Rightarrow> int" where
  "yearOfEra doe = (doe - doe div 1460 + doe div 36524 - doe div 146096) div 365"

definition dayOfYear :: "int \<Rightarrow> int" where
  "dayOfYear doe =
     doe - (365 * yearOfEra doe + yearOfEra doe div 4 - yearOfEra doe div 100)"

definition monthOfYear :: "int \<Rightarrow> int" where
  "monthOfYear doe =
     (if (5 * dayOfYear doe + 2) div 153 < 10
      then (5 * dayOfYear doe + 2) div 153 + 3
      else (5 * dayOfYear doe + 2) div 153 - 9)"

definition civilYear :: "int \<Rightarrow> int" where
  "civilYear days =
     yearOfEra ((days + 719468) mod 146097) + ((days + 719468) div 146097) * 400
     + (if monthOfYear ((days + 719468) mod 146097) \<le> 2 then 1 else 0)"

definition civilMonth :: "int \<Rightarrow> int" where
  "civilMonth days = monthOfYear ((days + 719468) mod 146097)"

definition dayOfMonth :: "int \<Rightarrow> int" where
  "dayOfMonth doe =
     dayOfYear doe - (153 * ((5 * dayOfYear doe + 2) div 153) + 2) div 5 + 1"

definition civilDay :: "int \<Rightarrow> int" where
  "civilDay days = dayOfMonth ((days + 719468) mod 146097)"

definition getFullYear :: "int \<Rightarrow> int \<Rightarrow> int" where
  "getFullYear tz d = civilYear ((d + tz) div msPerDay)"

definition getMonth :: "int \<Rightarrow> int \<Rightarrow> int" where
  "getMonth tz d = civilMonth ((d + tz) div msPerDay) - 1"

definition getDate :: "int \<Rightarrow> int \<Rightarrow> int" where
  "getDate tz d = civilDay ((d + tz) div msPerDay)"

definition currentMonthTransactions :: "int \<Rightarrow> int \<Rightarrow> Transaction list \<Rightarrow> Transaction list" where
  "currentMonthTransactions now tz transactions =
     filter (\<lambda>t. getMonth tz (created_at t) = getMonth tz now
                \<and> getFullYear tz (created_at t) = getFullYear tz now) transactions"

definition currentMonthCategorySpending ::
  "int \<Rightarrow> int \<Rightarrow> Transaction list \<Rightarrow> (string \<times> rat) list" where
  "currentMonthCategorySpending now tz transactions =
     sumByCategory (filter (\<lambda>t. tx_type t = expense) (currentMonthTransactions now tz transactions))"

text \<open>
  Sample data: five expenses seen on Tuesday 15 July 2025, 12:00 UTC
  (\<open>1752580800000\<close>): Thursday 10 July and Monday 7 July fall in the week before,
  Monday 9 June in the week five weeks before, Saturday 10 May in neither.
\<close>

definition mkTransaction :: "rat \<Rightarrow> TransactionType \<Rightarrow> string \<Rightarrow> int \<Rightarrow> Transaction" where
  "mkTransaction a ty c t =
     \<lparr>tx_id = [], user_id = [], amount = a, tx_type = ty, category = c, description = [],
      audio_transcript = None, created_at = t, updated_at = t\<rparr>"

definition sampleTransactions :: "Transaction list" where
  "sampleTransactions =
     [mkTransaction 50 expense ''Food'' 1752105600000,
      mkTransaction 100 expense ''Food'' 1746835200000,
      mkTransaction 20 expense ''Fun'' 1751900000000,
      mkTransaction 30 expense ''Bills'' 1749500000000,
      mkTransaction 30 expense ''Food'' 1749500000000]"

section \<open>Properties\<close>

subsection \<open>Recommendation cache\<close>

text \<open>
  C5. A cache \<open>{data, timestamp}\<close> held by the component is valid exactly when
  \<open>now - timestamp < 7*24*60*60*1000\<close>; at exactly seven days it is invalid. On mount,
  a stored cache that is not valid is removed from \<open>localStorage\<close> and from the state,
  nothing is displayed, and no recommendation request is issued.
\<close>

theorem C5_cache_validity_and_expiry:
  "(isCacheValid now s \<longleftrightarrow>
      (\<exists>c. cachedAIRecommendations s = Some c \<and> now - timestamp c < 7 * 24 * 60 * 60 * 1000))
   \<and> (cachedAIRecommendations s = Some c \<and> now - timestamp c = 7 * 24 * 60 * 60 * 1000
        \<longrightarrow> \<not> isCacheValid now s)
   \<and> (localStorage s = Some (Json c) \<and> early - timestamp c < 7 * 24 * 60 * 60 * 1000
        \<longrightarrow> cachedAIRecommendations (loadCachedRecommendations early s) = Some c
          \<and> aiRecommendations (loadCachedRecommendations early s) = data c
          \<and> localStorage (loadCachedRecommendations early s) = Some (Json c)
          \<and> fetchCalls (loadCachedRecommendations early s) = fetchCalls s)
   \<and> (localStorage s = Some (Json c) \<and> \<not> now - timestamp c < 7 * 24 * 60 * 60 * 1000
        \<longrightarrow> localStorage (loadCachedRecommendations now s) = None
          \<and> cachedAIRecommendations (loadCachedRecommendations now s) = None
          \<and> aiRecommendations (loadCachedRecommendations now s) = []
          \<and> lastAIRefresh (loadCachedRecommendations now s) = None
          \<and> fetchCalls (loadCachedRecommendations now s) = fetchCalls s
          \<and> \<not> isCacheValid now (loadCachedRecommendations now s))"
  by (auto simp: isCacheValid_def loadCachedRecommendations_def cacheValidDuration_def
           split: option.splits)

text \<open>
  A cache written at time 1000, held in the state and in \<open>localStorage\<close>: one
  millisecond before seven days have passed it is valid and is loaded; at exactly seven
  days it is invalid and the mount effect clears it without a request.
\<close>

theorem C5_cache_validity_and_expiry_witness:
  "\<not> isCacheValid 604801000
       \<lparr>aiRecommendations = [],
        cachedAIRecommendations = Some \<lparr>data = [], timestamp = 1000\<rparr>,
        isRefreshingAI = False, lastAIRefresh = None, aiRecommendationsError = [],
        localStorage = Some (Json \<lparr>data = [], timestamp = 1000\<rparr>), fetchCalls = 0\<rparr>
   \<and> cachedAIRecommendations (loadCachedRecommendations 604800999
       \<lparr>aiRecommendations = [],
        cachedAIRecommendations = Some \<lparr>data = [], timestamp = 1000\<rparr>,
        isRefreshingAI = False, lastAIRefresh = None, aiRecommendationsError = [],
        localStorage = Some (Json \<lparr>data = [], timestamp = 1000\<rparr>), fetchCalls = 0\<rparr>)
       = Some \<lparr>data = [], timestamp = 1000\<rparr>
   \<and> localStorage (loadCachedRecommendations 604801000
       \<lparr>aiRecommendations = [],
        cachedAIRecommendations = Some \<lparr>data = [], timestamp = 1000\<rparr>,
        isRefreshingAI = False, lastAIRefresh = None, aiRecommendationsError = [],
        localStorage = Some (Json \<lparr>data = [], timestamp = 1000\<rparr>), fetchCalls = 0\<rparr>)
       = None
   \<and> fetchCalls (loadCachedRecommendations 604801000
       \<lparr>aiRecommendations = [],
        cachedAIRecommendations = Some \<lparr>data = [], timestamp = 1000\<rparr>,
        isRefreshingAI = False, lastAIRefresh = None, aiRecommendationsError = [],
        localStorage = Some (Json \<lparr>data = [], timestamp = 1000\<rparr>), fetchCalls = 0\<rparr>)
       = 0"
  using C5_cache_validity_and_expiry
    [of 604801000
        "\<lparr>aiRecommendations = [],
          cachedAIRecommendations = Some \<lparr>data = [], timestamp = 1000\<rparr>,
          isRefreshingAI = False, lastAIRefresh = None, aiRecommendationsError = [],
          localStorage = Some (Json \<lparr>data = [], timestamp = 1000\<rparr>), fetchCalls = 0\<rparr>"
        "\<lparr>data = [], timestamp = 1000\<rparr>" 604800999]
  by simp

text \<open>
  C6. When the request of \<open>generateAIRecommendations\<close> fails, the error is caught, a
  non-empty message is stored for display, and the cached and the displayed
  recommendations (state and \<open>localStorage\<close>) are what they were; when it succeeds, the
  cache held by the component becomes \<open>{data = recommendations, timestamp = now}\<close>,
  the new recommendations are displayed, and the same cache object is written to
  \<open>localStorage\<close> whenever the browser accepts the write.
\<close>

theorem C6_generation_failure_and_success:
  "n \<noteq> 0 \<longrightarrow>
     (aiRecommendationsError (generateAIRecommendations n (Inl e) now refreshed stored s)
        = generationErrorMessage
      \<and> generationErrorMessage \<noteq> []
      \<and> cachedAIRecommendations (generateAIRecommendations n (Inl e) now refreshed stored s)
        = cachedAIRecommendations s
      \<and> aiRecommendations (generateAIRecommendations n (Inl e) now refreshed stored s)
        = aiRecommendations s
      \<and> localStorage (generateAIRecommendations n (Inl e) now refreshed stored s)
        = localStorage s
      \<and> lastAIRefresh (generateAIRecommendations n (Inl e) now refreshed stored s)
        = lastAIRefresh s)
     \<and> (cachedAIRecommendations (generateAIRecommendations n (Inr recs) now refreshed stored s)
        = Some \<lparr>data = recs, timestamp = now\<rparr>
      \<and> aiRecommendations (generateAIRecommendations n (Inr recs) now refreshed stored s)
        = recs
      \<and> aiRecommendationsError (generateAIRecommendations n (Inr recs) now refreshed stored s)
        = []
      \<and> (stored \<longrightarrow>
           localStorage (generateAIRecommendations n (Inr recs) now refreshed stored s)
             = Some (Json \<lparr>data = recs, timestamp = now\<rparr>)))"
  by (simp add: generateAIRecommendations_def generationErrorMessage_def Let_def)

theorem C6_generation_failure_and_success_witness:
  "(1::nat) \<noteq> 0
   \<and> cachedAIRecommendations (generateAIRecommendations 1 (Inl ''Failed to fetch'') 5000 5001 True
       \<lparr>aiRecommendations = [],
        cachedAIRecommendations = Some \<lparr>data = [], timestamp = 1000\<rparr>,
        isRefreshingAI = False, lastAIRefresh = Some 1000, aiRecommendationsError = [],
        localStorage = Some (Json \<lparr>data = [], timestamp = 1000\<rparr>), fetchCalls = 0\<rparr>)
       = Some \<lparr>data = [], timestamp = 1000\<rparr>
   \<and> localStorage (generateAIRecommendations 1 (Inl ''Failed to fetch'') 5000 5001 True
       \<lparr>aiRecommendations = [],
        cachedAIRecommendations = Some \<lparr>data = [], timestamp = 1000\<rparr>,
        isRefreshingAI = False, lastAIRefresh = Some 1000, aiRecommendationsError = [],
        localStorage = Some (Json \<lparr>data = [], timestamp = 1000\<rparr>), fetchCalls = 0\<rparr>)
       = Some (Json \<lparr>data = [], timestamp = 1000\<rparr>)
   \<and> localStorage (generateAIRecommendations 1 (Inr []) 5000 5001 True
       \<lparr>aiRecommendations = [],
        cachedAIRecommendations = Some \<lparr>data = [], timestamp = 1000\<rparr>,
        isRefreshingAI = False, lastAIRefresh = Some 1000, aiRecommendationsError = [],
        localStorage = Some (Json \<lparr>data = [], timestamp = 1000\<rparr>), fetchCalls = 0\<rparr>)
       = Some (Json \<lparr>data = [], timestamp = 5000\<rparr>)"
  using C6_generation_failure_and_success
    [of 1 "''Failed to fetch''" 5000 5001 True
        "\<lparr>aiRecommendations = [],
          cachedAIRecommendations = Some \<lparr>data = [], timestamp = 1000\<rparr>,
          isRefreshingAI = False, lastAIRefresh = Some 1000, aiRecommendationsError = [],
          localStorage = Some (Json \<lparr>data = [], timestamp = 1000\<rparr>), fetchCalls = 0\<rparr>"
        "[]"]
  by simp

text \<open>
  The refresh button does not call \<open>generateAIRecommendations\<close> directly but through
  \<open>handleManualRefresh\<close>, which clears the cache first: after a failed manual refresh
  the displayed recommendations are unchanged, the cache is gone.
\<close>

lemma handleManualRefresh_failure:
  "n \<noteq> 0 \<Longrightarrow>
   aiRecommendations (handleManualRefresh n (Inl e) now refreshed stored s) = aiRecommendations s
   \<and> cachedAIRecommendations (handleManualRefresh n (Inl e) now refreshed stored s) = None
   \<and> localStorage (handleManualRefresh n (Inl e) now refreshed stored s) = None"
  by (simp add: handleManualRefresh_def generateAIRecommendations_def Let_def)

subsection \<open>Fallback transcript analyzer\<close>

lemma startsWith_map: "startsWith s k \<Longrightarrow> startsWith (map f s) (map f k)"
  by (induction s k rule: startsWith.induct) auto

lemma str_includes_map: "str_includes s k \<Longrightarrow> str_includes (map f s) (map f k)"
proof (induction s)
  case Nil
  then show ?case by simp
next
  case (Cons c cs)
  then show ?case
    using startsWith_map [of "c # cs" k f] by auto
qed

lemma incomeKeywords_lower: "k \<in> set incomeKeywords \<Longrightarrow> map toLowerChar k = k"
  by (auto simp: incomeKeywords_def toLowerChar_def)

lemma analysis_type_income:
  "analysis_type (analyzeTranscriptFallback transcript) = income \<longleftrightarrow>
   list_ex (\<lambda>keyword. str_includes (toLowerCase transcript) keyword) incomeKeywords"
  by (simp add: analyzeTranscriptFallback_def Let_def)

text \<open>
  C7. A transcript that contains one of the income keywords, as written or in any
  capitalisation, is classified as income, whatever else it contains; an expense keyword
  in the same transcript changes nothing.
\<close>

theorem C7_income_keyword_wins:
  assumes "k \<in> set incomeKeywords"
    and "str_includes transcript k \<or> str_includes (toLowerCase transcript) k"
  shows "analysis_type (analyzeTranscriptFallback transcript) = income"
proof -
  have "str_includes (toLowerCase transcript) k"
    using assms str_includes_map [of transcript k toLowerChar] incomeKeywords_lower [of k]
    by (auto simp: toLowerCase_def)
  with assms(1) show ?thesis
    unfolding analysis_type_income list_ex_iff by blast
qed

text \<open>
  The transcript \<open>Paid $50 for gas\<close> contains the income keyword \<open>paid\<close>, and
  \<open>paid for the bill\<close> contains it together with the expense keywords \<open>paid for\<close> and
  \<open>bill\<close>: both are classified as income.
\<close>

theorem C7_income_keyword_wins_witness:
  "''paid'' \<in> set incomeKeywords
   \<and> str_includes (toLowerCase ''Paid $50 for gas'') ''paid''
   \<and> analysis_type (analyzeTranscriptFallback ''Paid $50 for gas'') = income
   \<and> ''paid for'' \<in> set expenseKeywords
   \<and> str_includes ''paid for the bill'' ''paid for''
   \<and> str_includes ''paid for the bill'' ''paid''
   \<and> analysis_type (analyzeTranscriptFallback ''paid for the bill'') = income"
proof -
  have k: "''paid'' \<in> set incomeKeywords"
    by (simp add: incomeKeywords_def)
  have e: "''paid for'' \<in> set expenseKeywords"
    by (simp add: expenseKeywords_def)
  have i: "str_includes (toLowerCase ''Paid $50 for gas'') ''paid''"
    by (simp add: toLowerCase_def toLowerChar_def)
  have j: "str_includes ''paid for the bill'' ''paid for''"
    by simp
  have l: "str_includes ''paid for the bill'' ''paid''"
    by simp
  from k e i j l C7_income_keyword_wins [of "''paid''" "''Paid $50 for gas''"]
    C7_income_keyword_wins [of "''paid''" "''paid for the bill''"]
  show ?thesis by blast
qed

lemmas analyzer_eval =
  analyzeTranscriptFallback_def Let_def toLowerCase_def toLowerChar_def categories_def
  incomeKeywords_def expenseKeywords_def matchHere_def matchNumber_def isDigit_def
  parseFloat_def digitsValue_def digitValue_def trim_def isSpace_def

text \<open>
  C10. On \<open>I spent $25 on groceries\<close> the fallback returns type expense, category
  Groceries and amount 25; on \<open>Got paid $2000 salary\<close> it returns type income, category
  Salary and amount 2000.
\<close>

theorem C10_fallback_examples:
  "analysis_type (analyzeTranscriptFallback ''I spent $25 on groceries'') = expense
   \<and> analysis_category (analyzeTranscriptFallback ''I spent $25 on groceries'') = ''Groceries''
   \<and> analysis_amount (analyzeTranscriptFallback ''I spent $25 on groceries'') = 25
   \<and> analysis_type (analyzeTranscriptFallback ''Got paid $2000 salary'') = income
   \<and> analysis_category (analyzeTranscriptFallback ''Got paid $2000 salary'') = ''Salary''
   \<and> analysis_amount (analyzeTranscriptFallback ''Got paid $2000 salary'') = 2000"
proof -
  have a: "analyzeTranscriptFallback ''I spent $25 on groceries'' =
             \<lparr>analysis_type = expense, analysis_category = ''Groceries'',
              analysis_amount = 25, analysis_description = ''I spent  on groceries'',
              confidence = 7 / 10\<rparr>"
    by (simp add: analyzer_eval)
  have b: "analyzeTranscriptFallback ''Got paid $2000 salary'' =
             \<lparr>analysis_type = income, analysis_category = ''Salary'',
              analysis_amount = 2000, analysis_description = ''Got paid  salary'',
              confidence = 7 / 10\<rparr>"
    by (simp add: analyzer_eval)
  show ?thesis
    by (simp add: a b)
qed

subsection \<open>Trend and insight calculator\<close>

lemma getOrZero_update:
  "getOrZero (AList.update k v acc) c = (if c = k then v else getOrZero acc c)"
  by (simp add: getOrZero_def update_conv')

lemma getOrZero_Nil: "getOrZero [] c = 0"
  by (simp add: getOrZero_def)

lemma getOrZero_addAmount:
  "getOrZero (addAmount acc t) c = getOrZero acc c + (if category t = c then amount t else 0)"
  by (simp add: addAmount_def getOrZero_update)

lemma getOrZero_foldl_addAmount:
  "getOrZero (foldl addAmount acc ts) c =
   getOrZero acc c + sum_list (map amount (filter (\<lambda>t. category t = c) ts))"
proof (induction ts arbitrary: acc)
  case Nil
  then show ?case by simp
next
  case (Cons t ts)
  have "getOrZero (foldl addAmount acc (t # ts)) c =
        getOrZero (addAmount acc t) c
        + sum_list (map amount (filter (\<lambda>t. category t = c) ts))"
    using Cons.IH [of "addAmount acc t"] by simp
  then show ?case
    by (simp add: getOrZero_addAmount)
qed

lemma getOrZero_sumByCategory:
  "getOrZero (sumByCategory ts) c = sum_list (map amount (filter (\<lambda>t. category t = c) ts))"
  by (simp add: sumByCategory_def getOrZero_foldl_addAmount getOrZero_Nil)

lemma keys_foldl_addAmount:
  "fst ` set (foldl addAmount acc ts) = fst ` set acc \<union> category ` set ts"
  by (induction ts arbitrary: acc) (auto simp: addAmount_def dom_update)

lemma keys_sumByCategory: "fst ` set (sumByCategory ts) = category ` set ts"
  by (simp add: sumByCategory_def keys_foldl_addAmount)

lemma distinct_foldl_addAmount:
  "distinct (map fst acc) \<Longrightarrow> distinct (map fst (foldl addAmount acc ts))"
  by (induction ts arbitrary: acc) (auto simp: addAmount_def distinct_update)

lemma distinct_sumByCategory: "distinct (map fst (sumByCategory ts))"
  by (simp add: sumByCategory_def distinct_foldl_addAmount)

lemma set_objectEntries: "set (objectEntries obj) = set obj"
  by (auto simp: objectEntries_def)

lemma set_objectKeys: "set (objectKeys obj) = fst ` set obj"
  by (simp add: objectKeys_def set_objectEntries)

lemma set_newSet: "set (newSet xs) = set xs"
  by (simp add: newSet_def)

lemma set_allCategories:
  "set (allCategories now tz ts) =
   category ` set (lastWeekTransactions now tz ts)
   \<union> category ` set (sameWeekLastMonthTransactions now tz ts)"
  by (simp add: allCategories_def set_newSet set_objectKeys lastWeekCategorySpending_def
        sameWeekLastMonthCategorySpending_def keys_sumByCategory)

lemma msPerDay_pos: "0 < msPerDay"
  by (simp add: msPerDay_def)

lemma getDay_range: "0 \<le> getDay tz d \<and> getDay tz d < 7"
  by (simp add: getDay_def)

lemma localDay_subWeeks:
  "(subWeeks d n + tz) div msPerDay = (d + tz) div msPerDay - 7 * n"
proof -
  have "subWeeks d n + tz = (d + tz) + (- (7 * n)) * msPerDay"
    by (simp add: subWeeks_def algebra_simps)
  then show ?thesis
    using msPerDay_pos by (simp only: div_mult_self1 [of msPerDay "d + tz" "- (7 * n)"])
qed

lemma getDay_subWeeks: "getDay tz (subWeeks d n) = getDay tz d"
proof -
  have "(x - 7 * n + 4) mod 7 = (x + 4) mod 7" for x :: int
    by presburger
  then show ?thesis
    by (simp add: getDay_def localDay_subWeeks)
qed

lemma startOfWeek_subWeeks:
  "startOfWeek tz (subWeeks d n) = startOfWeek tz d - n * 7 * msPerDay"
  unfolding startOfWeek_def getDay_subWeeks localDay_subWeeks
  by (simp add: algebra_simps)

lemma endOfWeek_startOfWeek: "endOfWeek tz d = startOfWeek tz d + 7 * msPerDay - 1"
  by (simp add: endOfWeek_def startOfWeek_def algebra_simps)

lemma startOfWeek_local_midnight: "(startOfWeek tz d + tz) mod msPerDay = 0"
  by (simp add: startOfWeek_def)

lemma startOfWeek_sunday: "getDay tz (startOfWeek tz d) = 0"
proof -
  have "(startOfWeek tz d + tz) div msPerDay = (d + tz) div msPerDay - getDay tz d"
    using msPerDay_pos by (simp add: startOfWeek_def)
  moreover have "(x - (x + 4) mod 7 + 4) mod 7 = 0" for x :: int
    by presburger
  ultimately show ?thesis
    by (simp add: getDay_def)
qed

lemma startOfWeek_contains:
  "startOfWeek tz d \<le> d \<and> d < startOfWeek tz d + 7 * msPerDay"
proof -
  define q where "q = (d + tz) div msPerDay"
  define r where "r = (d + tz) mod msPerDay"
  have d: "d + tz = q * msPerDay + r"
    by (simp add: q_def r_def)
  have r: "0 \<le> r" "r < msPerDay"
    using msPerDay_pos by (simp_all add: r_def)
  have g: "0 \<le> getDay tz d" "getDay tz d \<le> 6"
    using getDay_range [of tz d] by simp_all
  have "startOfWeek tz d = (q - getDay tz d) * msPerDay - tz"
    by (simp add: startOfWeek_def q_def)
  then have s: "startOfWeek tz d = d - r - getDay tz d * msPerDay"
    using d by (simp add: algebra_simps)
  have "getDay tz d * msPerDay \<ge> 0"
    using g msPerDay_pos by simp
  moreover have "getDay tz d * msPerDay \<le> 6 * msPerDay"
    using g msPerDay_pos by simp
  ultimately show ?thesis
    using s r by linarith
qed

lemma in_spendingTrendsOf:
  assumes "e \<in> set (spendingTrendsOf now tz ts)"
  shows "e = spendingTrendOf (lastWeekCategorySpending now tz ts)
               (sameWeekLastMonthCategorySpending now tz ts) (trend_category e)
         \<and> trend_category e \<in> set (allCategories now tz ts)
         \<and> trend_amount e > 0
         \<and> trend_amount e = getOrZero (lastWeekCategorySpending now tz ts) (trend_category e)"
proof -
  from assms have "e \<in> set (filter (\<lambda>e. trend_amount e > 0)
             (map (spendingTrendOf (lastWeekCategorySpending now tz ts)
                                   (sameWeekLastMonthCategorySpending now tz ts))
                  (allCategories now tz ts)))"
    unfolding spendingTrendsOf_def by (auto dest: in_set_takeD)
  then obtain c where c: "c \<in> set (allCategories now tz ts)"
      "e = spendingTrendOf (lastWeekCategorySpending now tz ts)
               (sameWeekLastMonthCategorySpending now tz ts) c"
      "trend_amount e > 0"
    by auto
  from c(2) have "trend_category e = c"
    and "trend_amount e = getOrZero (lastWeekCategorySpending now tz ts) c"
    by (simp_all add: spendingTrendOf_def Let_def)
  with c show ?thesis by simp
qed

lemma spendingTrends_generateBasicInsights:
  "set (spendingTrends (generateBasicInsights now tz ts bl)) \<subseteq> set (spendingTrendsOf now tz ts)"
  by (simp add: generateBasicInsights_def)

lemma sample_lastWeek:
  "lastWeekCategorySpending 1752580800000 0 sampleTransactions = [(''Food'', 50), (''Fun'', 20)]"
  by (simp add: lastWeekCategorySpending_def lastWeekTransactions_def sampleTransactions_def
        mkTransaction_def isWithinInterval_def startOfWeek_def endOfWeek_def subWeeks_def
        getDay_def msPerDay_def sumByCategory_def addAmount_def getOrZero_def)

lemma sample_lastMonth:
  "sameWeekLastMonthCategorySpending 1752580800000 0 sampleTransactions
     = [(''Bills'', 30), (''Food'', 30)]"
  by (simp add: sameWeekLastMonthCategorySpending_def sameWeekLastMonthTransactions_def
        sampleTransactions_def
        mkTransaction_def isWithinInterval_def startOfWeek_def endOfWeek_def subWeeks_def
        getDay_def msPerDay_def sumByCategory_def addAmount_def getOrZero_def)

lemma sample_allCategories:
  "allCategories 1752580800000 0 sampleTransactions = [''Food'', ''Fun'', ''Bills'']"
  by (simp add: allCategories_def sample_lastWeek sample_lastMonth objectKeys_def
        objectEntries_def isArrayIndex_def isDigit_def newSet_def)

lemma sample_spendingTrends:
  "spendingTrendsOf 1752580800000 0 sampleTransactions =
    [\<lparr>trend_category = ''Food'', trend_amount = 50, lastMonthAmount = 30,
        trend = increasing, percentage = 200 / 3, isNew = False\<rparr>,
     \<lparr>trend_category = ''Fun'', trend_amount = 20, lastMonthAmount = 0,
        trend = increasing, percentage = 100, isNew = True\<rparr>]"
  by (simp add: spendingTrendsOf_def sample_allCategories sample_lastWeek sample_lastMonth
        spendingTrendOf_def getOrZero_def Let_def)

lemma sum_list_amount_nonneg:
  "\<forall>t\<in>set ts. 0 \<le> amount t \<Longrightarrow> 0 \<le> sum_list (map amount (filter P ts))"
  by (rule sum_list_nonneg) auto

lemma foldl_amount: "foldl (\<lambda>sum t. sum + amount t) a ts = a + sum_list (map amount ts)"
  by (induction ts arbitrary: a) (simp_all add: add.assoc)

lemma weekendSpending_nonneg: "\<forall>t\<in>set ts. 0 \<le> amount t \<Longrightarrow> 0 \<le> weekendSpending tz ts"
  unfolding weekendSpending_def foldl_amount
  using sum_list_amount_nonneg by simp

lemma weekdaySpending_nonneg: "\<forall>t\<in>set ts. 0 \<le> amount t \<Longrightarrow> 0 \<le> weekdaySpending tz ts"
  unfolding weekdaySpending_def foldl_amount
  using sum_list_amount_nonneg by simp

lemma lastWeekAmount_nonneg:
  assumes "\<forall>t\<in>set ts. 0 \<le> amount t"
  shows "0 \<le> getOrZero (lastWeekCategorySpending now tz ts) c"
proof -
  have "\<forall>t\<in>set (lastWeekTransactions now tz ts). 0 \<le> amount t"
    using assms by (simp add: lastWeekTransactions_def)
  then show ?thesis
    unfolding lastWeekCategorySpending_def getOrZero_sumByCategory
    by (rule sum_list_amount_nonneg)
qed

lemma not_historical:
  "p \<in> set (historicalPattern now tz trends) \<Longrightarrow> pattern_type p = historical_comparison"
  by (auto simp: historicalPattern_def Let_def split: if_splits)

lemma weekendPattern_iff:
  "(\<exists>p\<in>set (weekendPattern tz ts). pattern_type p = weekend_spending) \<longleftrightarrow>
   weekendSpending tz ts > 0 \<and> weekdaySpending tz ts > 0
   \<and> weekendSpending tz ts / (weekendSpending tz ts + weekdaySpending tz ts) * 100 > 35"
  by (simp add: weekendPattern_def Let_def)

lemma weekend_empty: "weekendSpending tz [] = 0" "weekdaySpending tz [] = 0"
  by (simp_all add: weekendSpending_def weekdaySpending_def)

lemma patterns_weekend_iff:
  "(\<exists>p\<in>set (patterns (generateBasicInsights now tz ts bl)). pattern_type p = weekend_spending)
   \<longleftrightarrow> weekendSpending tz ts > 0 \<and> weekdaySpending tz ts > 0
   \<and> weekendSpending tz ts / (weekendSpending tz ts + weekdaySpending tz ts) * 100 > 35"
proof (cases "ts = []")
  case True
  then show ?thesis
    by (simp add: generateBasicInsights_def weekend_empty)
next
  case False
  have "(\<exists>p\<in>set (patterns (generateBasicInsights now tz ts bl)). pattern_type p = weekend_spending)
        \<longleftrightarrow> (\<exists>p\<in>set (weekendPattern tz ts). pattern_type p = weekend_spending)"
    using False not_historical [of _ now tz "spendingTrendsOf now tz ts"]
    by (auto simp: generateBasicInsights_def)
  then show ?thesis
    by (simp only: weekendPattern_iff)
qed

lemma sample_length: "length sampleTransactions = 5"
  by (simp add: sampleTransactions_def)

lemma sample_nonneg: "\<forall>t\<in>set sampleTransactions. 0 \<le> amount t"
  by (simp add: sampleTransactions_def mkTransaction_def)

lemma sample_weekend: "weekendSpending 0 sampleTransactions = 100"
  by (simp add: weekendSpending_def sampleTransactions_def mkTransaction_def getDay_def
        msPerDay_def)

lemma sample_weekday: "weekdaySpending 0 sampleTransactions = 130"
  by (simp add: weekdaySpending_def sampleTransactions_def mkTransaction_def getDay_def
        msPerDay_def)

subsection \<open>The comparison windows\<close>

text \<open>
  The earlier window and the calendar month: an instant \<open>k\<close> days before an instant
  \<open>x\<close> of the second half of last week (Wednesday to Saturday) lies in the earlier
  window whenever \<open>k\<close> is the length of a month, 28 to 31 days.
\<close>

lemma month_before_last_week:
  assumes "28 \<le> k" and "k \<le> 31"
    and "startOfWeek tz now - 4 * msPerDay \<le> x" and "x < startOfWeek tz now"
  shows "isWithinInterval (x - k * msPerDay)
           (startOfWeek tz (subWeeks now 5)) (endOfWeek tz (subWeeks now 5))"
proof -
  have "28 * msPerDay \<le> k * msPerDay" and "k * msPerDay \<le> 31 * msPerDay"
    using assms(1,2) msPerDay_pos by simp_all
  then show ?thesis
    unfolding isWithinInterval_def endOfWeek_startOfWeek startOfWeek_subWeeks
    using assms(3,4) by linarith
qed

text \<open>
  C2 as it is written does not hold: the earlier window is not the calendar week one
  calendar month before last week. Seen on Tuesday 15 July 2025, last week is 6 to
  12 July and holds an expense of Monday 7 July; an expense of Saturday 7 June, the same
  day one calendar month earlier, is in neither window, the earlier window being 8 to
  14 June.
\<close>

theorem C2_one_month_prior_counterexample:
  "getFullYear 0 1751889600000 = 2025 \<and> getMonth 0 1751889600000 = 6
   \<and> getDate 0 1751889600000 = 7 \<and> getDay 0 1751889600000 = 1
   \<and> getFullYear 0 1749297600000 = 2025 \<and> getMonth 0 1749297600000 = 5
   \<and> getDate 0 1749297600000 = 7 \<and> getDay 0 1749297600000 = 6
   \<and> lastWeekTransactions 1752580800000 0
        [mkTransaction 40 expense ''Food'' 1751889600000,
         mkTransaction 10 expense ''Food'' 1749297600000]
       = [mkTransaction 40 expense ''Food'' 1751889600000]
   \<and> sameWeekLastMonthTransactions 1752580800000 0
        [mkTransaction 40 expense ''Food'' 1751889600000,
         mkTransaction 10 expense ''Food'' 1749297600000]
       = []
   \<and> startOfWeek 0 (subWeeks 1752580800000 5) = 1749340800000
   \<and> endOfWeek 0 (subWeeks 1752580800000 5) = 1749945599999"
proof -
  have d: "civilYear 20276 = 2025" "civilMonth 20276 = 7" "civilDay 20276 = 7"
    "civilYear 20246 = 2025" "civilMonth 20246 = 6" "civilDay 20246 = 7"
    by (simp_all add: civilYear_def civilMonth_def civilDay_def monthOfYear_def
          dayOfMonth_def dayOfYear_def yearOfEra_def)
  have c: "getFullYear 0 1751889600000 = 2025 \<and> getMonth 0 1751889600000 = 6
     \<and> getDate 0 1751889600000 = 7 \<and> getDay 0 1751889600000 = 1
     \<and> getFullYear 0 1749297600000 = 2025 \<and> getMonth 0 1749297600000 = 5
     \<and> getDate 0 1749297600000 = 7 \<and> getDay 0 1749297600000 = 6"
    by (simp add: getFullYear_def getMonth_def getDate_def getDay_def msPerDay_def d)
  have w: "lastWeekTransactions 1752580800000 0
        [mkTransaction 40 expense ''Food'' 1751889600000,
         mkTransaction 10 expense ''Food'' 1749297600000]
       = [mkTransaction 40 expense ''Food'' 1751889600000]
     \<and> sameWeekLastMonthTransactions 1752580800000 0
        [mkTransaction 40 expense ''Food'' 1751889600000,
         mkTransaction 10 expense ''Food'' 1749297600000]
       = []
     \<and> startOfWeek 0 (subWeeks 1752580800000 5) = 1749340800000
     \<and> endOfWeek 0 (subWeeks 1752580800000 5) = 1749945599999"
    by (simp add: lastWeekTransactions_def sameWeekLastMonthTransactions_def
          mkTransaction_def isWithinInterval_def startOfWeek_def endOfWeek_def subWeeks_def
          getDay_def msPerDay_def)
  from c w show ?thesis by (simp only: simp_thms)
qed

text \<open>
  C2, amended. At every time \<open>now\<close> (and in every time zone of the model) the trend
  computation selects the expenses of exactly two windows bounded by calendar weeks,
  which start on Sunday at local midnight: last week, the seven days before the start of
  the week that contains \<open>now\<close>, and the calendar week exactly four weeks before last
  week (five weeks before the current one), which the source calls approximately the
  same week last month. The amount recorded for a category in a window is the sum of the
  amounts of the expenses of that category in that window.
\<close>

theorem C2_trend_windows:
  "lastWeekTransactions now tz ts =
     filter (\<lambda>t. tx_type t = expense
                \<and> startOfWeek tz now - 7 * msPerDay \<le> created_at t
                \<and> created_at t < startOfWeek tz now) ts
   \<and> sameWeekLastMonthTransactions now tz ts =
     filter (\<lambda>t. tx_type t = expense
                \<and> startOfWeek tz now - 35 * msPerDay \<le> created_at t
                \<and> created_at t < startOfWeek tz now - 28 * msPerDay) ts
   \<and> getDay tz (startOfWeek tz now) = 0
   \<and> (startOfWeek tz now + tz) mod msPerDay = 0
   \<and> startOfWeek tz now \<le> now \<and> now < startOfWeek tz now + 7 * msPerDay
   \<and> getOrZero (lastWeekCategorySpending now tz ts) c =
       sum_list (map amount (filter (\<lambda>t. category t = c) (lastWeekTransactions now tz ts)))
   \<and> getOrZero (sameWeekLastMonthCategorySpending now tz ts) c =
       sum_list (map amount
         (filter (\<lambda>t. category t = c) (sameWeekLastMonthTransactions now tz ts)))"
proof -
  have a: "lastWeekTransactions now tz ts =
     filter (\<lambda>t. tx_type t = expense
                \<and> startOfWeek tz now - 7 * msPerDay \<le> created_at t
                \<and> created_at t < startOfWeek tz now) ts"
    unfolding lastWeekTransactions_def isWithinInterval_def endOfWeek_startOfWeek
      startOfWeek_subWeeks
    by (rule filter_cong) auto
  have b: "sameWeekLastMonthTransactions now tz ts =
     filter (\<lambda>t. tx_type t = expense
                \<and> startOfWeek tz now - 35 * msPerDay \<le> created_at t
                \<and> created_at t < startOfWeek tz now - 28 * msPerDay) ts"
    unfolding sameWeekLastMonthTransactions_def isWithinInterval_def endOfWeek_startOfWeek
      startOfWeek_subWeeks
    by (rule filter_cong) auto
  show ?thesis
    using a b startOfWeek_sunday [of tz now] startOfWeek_local_midnight [of tz now]
      startOfWeek_contains [of tz now]
    by (simp add: lastWeekCategorySpending_def sameWeekLastMonthCategorySpending_def
          getOrZero_sumByCategory)
qed

subsection \<open>Trend entries\<close>

text \<open>
  C3. For every entry of \<open>spendingTrends\<close>, with \<open>lastWeek\<close> and \<open>prior\<close> the amounts of
  its category in the two windows: the percentage is \<open>|lastWeek - prior| / prior * 100\<close>
  whenever \<open>prior > 0\<close>, and \<open>isNew\<close> holds exactly when \<open>prior = 0\<close> and
  \<open>lastWeek > 0\<close>.
\<close>

theorem C3_trend_percentage_and_isNew:
  assumes "e \<in> set (spendingTrends (generateBasicInsights now tz ts bl))"
  shows "trend_amount e
           = getOrZero (lastWeekCategorySpending now tz ts) (trend_category e)
         \<and> lastMonthAmount e
           = getOrZero (sameWeekLastMonthCategorySpending now tz ts) (trend_category e)
         \<and> (lastMonthAmount e > 0 \<longrightarrow>
              percentage e = \<bar>trend_amount e - lastMonthAmount e\<bar> / lastMonthAmount e * 100)
         \<and> (isNew e \<longleftrightarrow> lastMonthAmount e = 0 \<and> trend_amount e > 0)"
proof -
  from assms spendingTrends_generateBasicInsights [of now tz ts bl]
  have "e \<in> set (spendingTrendsOf now tz ts)" by blast
  from in_spendingTrendsOf [OF this]
  have e: "e = spendingTrendOf (lastWeekCategorySpending now tz ts)
               (sameWeekLastMonthCategorySpending now tz ts) (trend_category e)"
    by simp
  define lw where "lw = getOrZero (lastWeekCategorySpending now tz ts) (trend_category e)"
  define lm where
    "lm = getOrZero (sameWeekLastMonthCategorySpending now tz ts) (trend_category e)"
  have 1: "trend_amount e = lw"
    by (subst e) (simp add: spendingTrendOf_def Let_def lw_def)
  have 2: "lastMonthAmount e = lm"
    by (subst e) (simp add: spendingTrendOf_def Let_def lm_def)
  have 3: "isNew e \<longleftrightarrow> lm = 0 \<and> lw > 0"
    by (subst e) (simp add: spendingTrendOf_def Let_def lm_def lw_def)
  have 4: "percentage e = \<bar>lw - lm\<bar> / lm * 100" if "lm > 0"
  proof -
    have "percentage e = \<bar>(lw - lm) / lm * 100\<bar>"
      using that by (subst e) (simp add: spendingTrendOf_def Let_def lm_def lw_def)
    also have "\<dots> = \<bar>lw - lm\<bar> / \<bar>lm\<bar> * \<bar>100\<bar>"
      by (simp only: abs_mult abs_divide)
    also have "\<dots> = \<bar>lw - lm\<bar> / lm * 100"
      using that by simp
    finally show ?thesis .
  qed
  show ?thesis
    using 1 2 3 4 by (simp add: lw_def lm_def)
qed

theorem C3_trend_percentage_and_isNew_witness:
  "\<lparr>trend_category = ''Food'', trend_amount = 50, lastMonthAmount = 30,
       trend = increasing, percentage = 200 / 3, isNew = False\<rparr>
     \<in> set (spendingTrends
              (generateBasicInsights 1752580800000 0 sampleTransactions []))
   \<and> getOrZero (lastWeekCategorySpending 1752580800000 0 sampleTransactions)
         ''Food'' = 50
   \<and> getOrZero (sameWeekLastMonthCategorySpending 1752580800000 0 sampleTransactions)
         ''Food'' = 30
   \<and> percentage \<lparr>trend_category = ''Food'', trend_amount = 50, lastMonthAmount = 30,
       trend = increasing, percentage = 200 / 3, isNew = False\<rparr> = \<bar>50 - 30\<bar> / 30 * 100
   \<and> \<not> isNew \<lparr>trend_category = ''Food'', trend_amount = 50, lastMonthAmount = 30,
       trend = increasing, percentage = 200 / 3, isNew = False\<rparr>"
proof -
  have m: "\<lparr>trend_category = ''Food'', trend_amount = 50, lastMonthAmount = 30,
       trend = increasing, percentage = 200 / 3, isNew = False\<rparr>
     \<in> set (spendingTrends
              (generateBasicInsights 1752580800000 0 sampleTransactions []))"
    by (simp add: generateBasicInsights_def sample_length sample_spendingTrends)
  from C3_trend_percentage_and_isNew [OF m] m show ?thesis
    by simp
qed

lemma keys_of_getOrZero: "getOrZero acc c \<noteq> 0 \<Longrightarrow> c \<in> fst ` set acc"
proof -
  assume "getOrZero acc c \<noteq> 0"
  then obtain v where "map_of acc c = Some v"
    by (cases "map_of acc c") (simp_all add: getOrZero_def)
  then have "(c, v) \<in> set acc"
    by (rule map_of_SomeD)
  then show ?thesis
    by force
qed

lemma trend_amount_spendingTrendOf:
  "trend_amount (spendingTrendOf lw lm c) = getOrZero lw c"
  by (simp add: spendingTrendOf_def Let_def)

lemma positive_trends_length:
  "length (filter (\<lambda>e. trend_amount e > 0) (map (spendingTrendOf lw lm) cs))
     = length (filter (\<lambda>k. 0 < getOrZero lw k) cs)"
  by (induction cs) (simp_all add: trend_amount_spendingTrendOf)

text \<open>
  When at most five categories have a positive amount last week, the slice drops
  nothing: every category with a positive amount last week has its entry in the result.
\<close>

lemma spendingTrendsOf_complete:
  assumes "0 < getOrZero (lastWeekCategorySpending now tz ts) c"
    and "length (filter (\<lambda>k. 0 < getOrZero (lastWeekCategorySpending now tz ts) k)
                   (allCategories now tz ts)) \<le> 5"
  shows "spendingTrendOf (lastWeekCategorySpending now tz ts)
           (sameWeekLastMonthCategorySpending now tz ts) c
         \<in> set (spendingTrendsOf now tz ts)"
proof -
  let ?f = "spendingTrendOf (lastWeekCategorySpending now tz ts)
              (sameWeekLastMonthCategorySpending now tz ts)"
  let ?ys = "filter (\<lambda>e. trend_amount e > 0) (map ?f (allCategories now tz ts))"
  have "c \<in> fst ` set (lastWeekCategorySpending now tz ts)"
    using assms(1) keys_of_getOrZero [of "lastWeekCategorySpending now tz ts" c] by simp
  then have "c \<in> set (allCategories now tz ts)"
    by (simp add: allCategories_def set_newSet set_objectKeys)
  then have m: "?f c \<in> set ?ys"
    using assms(1) by (simp add: trend_amount_spendingTrendOf)
  have "length (sort_key (\<lambda>e. - trend_amount e) ?ys) \<le> 5"
    using assms(2) by (simp only: length_sort positive_trends_length)
  then have "take 5 (sort_key (\<lambda>e. - trend_amount e) ?ys)
               = sort_key (\<lambda>e. - trend_amount e) ?ys"
    by (rule take_all)
  then have "set (spendingTrendsOf now tz ts) = set ?ys"
    by (simp only: spendingTrendsOf_def set_sort)
  with m show ?thesis
    by (simp only:)
qed

lemma lastWeekCategorySpending_Nil: "lastWeekCategorySpending now tz [] = []"
  by (simp add: lastWeekCategorySpending_def lastWeekTransactions_def sumByCategory_def)

lemma spendingTrendOf_classified:
  assumes "0 < getOrZero lw c"
  shows "trend_amount (spendingTrendOf lw lm c) = getOrZero lw c
         \<and> lastMonthAmount (spendingTrendOf lw lm c) = getOrZero lm c
         \<and> (lastMonthAmount (spendingTrendOf lw lm c) > 0 \<longrightarrow>
              trend (spendingTrendOf lw lm c) =
                (if (trend_amount (spendingTrendOf lw lm c)
                       - lastMonthAmount (spendingTrendOf lw lm c))
                      / lastMonthAmount (spendingTrendOf lw lm c) * 100 > 5
                 then increasing
                 else if (trend_amount (spendingTrendOf lw lm c)
                            - lastMonthAmount (spendingTrendOf lw lm c))
                           / lastMonthAmount (spendingTrendOf lw lm c) * 100 < - 5
                 then decreasing
                 else stable))
         \<and> (lastMonthAmount (spendingTrendOf lw lm c) = 0 \<longrightarrow>
              percentage (spendingTrendOf lw lm c) = 100
              \<and> trend (spendingTrendOf lw lm c) = increasing
              \<and> isNew (spendingTrendOf lw lm c))"
  using assms by (simp add: spendingTrendOf_def Let_def)

text \<open>
  C4. Every entry of \<open>spendingTrends\<close> carries the amounts \<open>lw\<close> and \<open>lm\<close> of its
  category in the two windows; when \<open>lm > 0\<close> its trend is \<open>increasing\<close> if the change
  \<open>(lw - lm) / lm * 100\<close> exceeds 5, \<open>decreasing\<close> if it is below -5 and \<open>stable\<close>
  otherwise; when \<open>lm = 0\<close> it has percentage 100 and is increasing and new. For
  transactions whose amounts are not negative, a category whose amount last week is not
  zero is reported with such an entry whenever at most five categories have a positive
  amount last week.
\<close>

theorem C4_trend_classification:
  "(\<forall>e\<in>set (spendingTrends (generateBasicInsights now tz ts bl)).
            trend_amount e
              = getOrZero (lastWeekCategorySpending now tz ts) (trend_category e)
            \<and> lastMonthAmount e
              = getOrZero (sameWeekLastMonthCategorySpending now tz ts) (trend_category e)
            \<and> (lastMonthAmount e > 0 \<longrightarrow>
                 trend e =
                   (if (trend_amount e - lastMonthAmount e) / lastMonthAmount e * 100 > 5
                    then increasing
                    else if (trend_amount e - lastMonthAmount e) / lastMonthAmount e * 100 < - 5
                    then decreasing
                    else stable))
            \<and> (lastMonthAmount e = 0 \<longrightarrow>
                 percentage e = 100 \<and> trend e = increasing \<and> isNew e))
         \<and> ((\<forall>t\<in>set ts. 0 \<le> amount t)
              \<and> getOrZero (lastWeekCategorySpending now tz ts) c \<noteq> 0
              \<and> length (filter (\<lambda>k. 0 < getOrZero (lastWeekCategorySpending now tz ts) k)
                           (allCategories now tz ts)) \<le> 5
             \<longrightarrow> (\<exists>e\<in>set (spendingTrends (generateBasicInsights now tz ts bl)).
                    trend_category e = c))"
proof -
  let ?lw = "lastWeekCategorySpending now tz ts"
  let ?lm = "sameWeekLastMonthCategorySpending now tz ts"
  have 1: "trend_amount e = getOrZero ?lw (trend_category e)
            \<and> lastMonthAmount e = getOrZero ?lm (trend_category e)
            \<and> (lastMonthAmount e > 0 \<longrightarrow>
                 trend e =
                   (if (trend_amount e - lastMonthAmount e) / lastMonthAmount e * 100 > 5
                    then increasing
                    else if (trend_amount e - lastMonthAmount e) / lastMonthAmount e * 100 < - 5
                    then decreasing
                    else stable))
            \<and> (lastMonthAmount e = 0 \<longrightarrow>
                 percentage e = 100 \<and> trend e = increasing \<and> isNew e)"
    if "e \<in> set (spendingTrends (generateBasicInsights now tz ts bl))" for e
  proof -
    from that spendingTrends_generateBasicInsights [of now tz ts bl]
    have "e \<in> set (spendingTrendsOf now tz ts)" by blast
    from in_spendingTrendsOf [OF this]
    have e: "e = spendingTrendOf ?lw ?lm (trend_category e)"
      and p: "0 < getOrZero ?lw (trend_category e)"
      by simp_all
    from spendingTrendOf_classified [OF p, of ?lm] show ?thesis
      unfolding e [symmetric] .
  qed
  have 2: "\<exists>e\<in>set (spendingTrends (generateBasicInsights now tz ts bl)).
             trend_category e = c"
    if nonneg: "\<forall>t\<in>set ts. 0 \<le> amount t"
      and nz: "getOrZero ?lw c \<noteq> 0"
      and five: "length (filter (\<lambda>k. 0 < getOrZero ?lw k) (allCategories now tz ts)) \<le> 5"
  proof -
    have pos: "0 < getOrZero ?lw c"
      using nz lastWeekAmount_nonneg [OF nonneg, of now tz c] by simp
    have "ts \<noteq> []"
      using nz by (auto simp: lastWeekCategorySpending_Nil getOrZero_Nil)
    then have "spendingTrends (generateBasicInsights now tz ts bl) = spendingTrendsOf now tz ts"
      by (simp add: generateBasicInsights_def)
    moreover have "spendingTrendOf ?lw ?lm c \<in> set (spendingTrendsOf now tz ts)"
      using pos five by (rule spendingTrendsOf_complete)
    moreover have "trend_category (spendingTrendOf ?lw ?lm c) = c"
      by (simp add: spendingTrendOf_def Let_def)
    ultimately show ?thesis
      by metis
  qed
  from 1 2 show ?thesis
    by blast
qed

text \<open>
  On the sample data two categories have a positive amount last week. \<open>Fun\<close>, with 20
  last week and nothing in the earlier window, is reported as new with 100 percent;
  \<open>Food\<close>, with 50 against 30, is reported as increasing.
\<close>

theorem C4_trend_classification_witness:
  "list_all (\<lambda>t. 0 \<le> amount t) sampleTransactions
   \<and> getOrZero (lastWeekCategorySpending 1752580800000 0 sampleTransactions) ''Fun'' = 20
   \<and> length (filter (\<lambda>k. 0 < getOrZero (lastWeekCategorySpending 1752580800000 0 sampleTransactions) k)
               (allCategories 1752580800000 0 sampleTransactions)) = 2
   \<and> list_ex (\<lambda>e. trend_category e = ''Fun'' \<and> lastMonthAmount e = 0
                   \<and> percentage e = 100 \<and> trend e = increasing \<and> isNew e)
        (spendingTrends 
          (generateBasicInsights 1752580800000 0 sampleTransactions []))
   \<and> list_ex (\<lambda>e. trend_category e = ''Food'' \<and> trend_amount e = 50
                   \<and> lastMonthAmount e = 30 \<and> trend e = increasing)
        (spendingTrends 
          (generateBasicInsights 1752580800000 0 sampleTransactions []))"
proof -
  have a: "getOrZero (lastWeekCategorySpending 1752580800000 0 sampleTransactions) ''Fun'' = 20" "getOrZero (lastWeekCategorySpending 1752580800000 0 sampleTransactions) ''Food'' = 50"
    "getOrZero (sameWeekLastMonthCategorySpending 1752580800000 0 sampleTransactions) ''Fun'' = 0" "getOrZero (sameWeekLastMonthCategorySpending 1752580800000 0 sampleTransactions) ''Food'' = 30"
    by (simp_all add: sample_lastWeek sample_lastMonth getOrZero_def)
  have n: "length (filter (\<lambda>k. 0 < getOrZero (lastWeekCategorySpending 1752580800000 0 sampleTransactions) k)
               (allCategories 1752580800000 0 sampleTransactions)) = 2"
    by (simp add: sample_allCategories sample_lastWeek getOrZero_def)
  note t = C4_trend_classification [of 1752580800000 0 sampleTransactions "[]"]
  from t [of "''Fun''"] a(1) n sample_nonneg
  obtain e where e: "e \<in> set (spendingTrends 
          (generateBasicInsights 1752580800000 0 sampleTransactions []))" "trend_category e = ''Fun''"
    by auto
  from t [of "''Fun''"] e a(3)
  have e': "lastMonthAmount e = 0" "percentage e = 100" "trend e = increasing" "isNew e"
    by simp_all
  from t [of "''Food''"] a(2) n sample_nonneg
  obtain f where f: "f \<in> set (spendingTrends 
          (generateBasicInsights 1752580800000 0 sampleTransactions []))" "trend_category f = ''Food''"
    by auto
  from t [of "''Food''"] f a(2,4)
  have f': "trend_amount f = 50" "lastMonthAmount f = 30" "trend f = increasing"
    by simp_all
  from e e' f f' a n sample_nonneg show ?thesis
    unfolding list_all_iff list_ex_iff by blast
qed

text \<open>
  C8. \<open>spendingTrends\<close> has at most five entries, is sorted by descending last-week
  amount, and every entry has a positive last-week amount: a category without positive
  spending last week does not appear, whatever it spent in the earlier window.
\<close>

theorem C8_top_five_sorted_positive:
  "length (spendingTrends (generateBasicInsights now tz ts bl)) \<le> 5
   \<and> sorted_wrt (\<lambda>a b. trend_amount a \<ge> trend_amount b)
        (spendingTrends (generateBasicInsights now tz ts bl))
   \<and> (\<forall>e\<in>set (spendingTrends (generateBasicInsights now tz ts bl)). trend_amount e > 0)
   \<and> (\<not> 0 < getOrZero (lastWeekCategorySpending now tz ts) c \<longrightarrow>
        c \<notin> trend_category ` set (spendingTrends (generateBasicInsights now tz ts bl)))"
proof -
  let ?xs = "filter (\<lambda>e. trend_amount e > 0)
             (map (spendingTrendOf (lastWeekCategorySpending now tz ts)
                                   (sameWeekLastMonthCategorySpending now tz ts))
                  (allCategories now tz ts))"
  have "sorted (map (\<lambda>e. - trend_amount e) (sort_key (\<lambda>e. - trend_amount e) ?xs))"
    by (rule sorted_sort_key)
  then have "sorted_wrt (\<lambda>a b. trend_amount a \<ge> trend_amount b)
               (sort_key (\<lambda>e. - trend_amount e) ?xs)"
    by (simp add: sorted_wrt_map)
  then have s: "sorted_wrt (\<lambda>a b. trend_amount a \<ge> trend_amount b) (spendingTrendsOf now tz ts)"
    unfolding spendingTrendsOf_def by (rule sorted_wrt_take)
  have l: "length (spendingTrendsOf now tz ts) \<le> 5"
    by (simp add: spendingTrendsOf_def)
  have p: "\<forall>e\<in>set (spendingTrendsOf now tz ts). trend_amount e > 0"
    using in_spendingTrendsOf by blast
  have n: "c \<notin> trend_category ` set (spendingTrendsOf now tz ts)"
    if "\<not> 0 < getOrZero (lastWeekCategorySpending now tz ts) c"
  proof
    assume "c \<in> trend_category ` set (spendingTrendsOf now tz ts)"
    then obtain e where e: "e \<in> set (spendingTrendsOf now tz ts)" "trend_category e = c"
      by auto
    from in_spendingTrendsOf [OF e(1)] e(2)
    have "0 < getOrZero (lastWeekCategorySpending now tz ts) c"
      by metis
    with that show False by simp
  qed
  show ?thesis
  proof (cases "ts = []")
    case True
    then show ?thesis by (simp add: generateBasicInsights_def)
  next
    case False
    then show ?thesis
      using s l p n by (simp add: generateBasicInsights_def)
  qed
qed

theorem C8_top_five_sorted_positive_witness:
  "\<not> 0 < getOrZero (lastWeekCategorySpending 1752580800000 0 sampleTransactions)
           ''Bills''
   \<and> getOrZero (sameWeekLastMonthCategorySpending 1752580800000 0 sampleTransactions)
         ''Bills'' = 30
   \<and> ''Bills'' \<notin> trend_category `
         set (spendingTrends (generateBasicInsights 1752580800000 0 sampleTransactions []))
   \<and> list_all (\<lambda>e. trend_amount e > 0)
        (spendingTrends (generateBasicInsights 1752580800000 0 sampleTransactions []))
   \<and> length (spendingTrends (generateBasicInsights 1752580800000 0 sampleTransactions []))
         \<le> 5"
proof -
  have a:
    "getOrZero (lastWeekCategorySpending 1752580800000 0 sampleTransactions)
       ''Bills'' = 0"
    "getOrZero (sameWeekLastMonthCategorySpending 1752580800000 0 sampleTransactions)
       ''Bills'' = 30"
    by (simp_all add: sample_lastWeek sample_lastMonth getOrZero_def)
  from C8_top_five_sorted_positive [of 1752580800000 0 sampleTransactions "[]" "''Bills''"] a
  show ?thesis
    by (simp add: list_all_iff)
qed

subsection \<open>Weekend pattern\<close>

text \<open>
  C9. For transactions whose amounts are not negative, the weekend-spending pattern is
  emitted if and only if the weekend total and the weekday total of the expenses are
  both nonzero and the weekend share of their sum exceeds 35 percent.
\<close>

theorem C9_weekend_pattern:
  assumes "\<forall>t\<in>set ts. 0 \<le> amount t"
  shows "(\<exists>p\<in>set (patterns (generateBasicInsights now tz ts bl)).
            pattern_type p = weekend_spending)
         \<longleftrightarrow> weekendSpending tz ts \<noteq> 0 \<and> weekdaySpending tz ts \<noteq> 0
             \<and> weekendSpending tz ts / (weekendSpending tz ts + weekdaySpending tz ts) * 100
                 > 35"
  using weekendSpending_nonneg [OF assms, of tz] weekdaySpending_nonneg [OF assms, of tz]
  unfolding patterns_weekend_iff by auto

theorem C9_weekend_pattern_witness:
  "list_all (\<lambda>t. 0 \<le> amount t) sampleTransactions
   \<and> weekendSpending 0 sampleTransactions = 100
   \<and> weekdaySpending 0 sampleTransactions = 130
   \<and> list_ex (\<lambda>p. pattern_type p = weekend_spending)
        (patterns (generateBasicInsights 1752580800000 0 sampleTransactions []))"
proof -
  from C9_weekend_pattern [OF sample_nonneg, of 1752580800000 0 "[]"] sample_nonneg
    sample_weekend sample_weekday
  show ?thesis
    by (simp add: list_all_iff list_ex_iff)
qed

subsection \<open>Budget alerts\<close>

lemma entry_sumByCategory:
  "(k, v) \<in> set (sumByCategory xs) \<longleftrightarrow>
   k \<in> category ` set xs \<and> v = sum_list (map amount (filter (\<lambda>t. category t = k) xs))"
proof
  assume kv: "(k, v) \<in> set (sumByCategory xs)"
  then have "map_of (sumByCategory xs) k = Some v"
    using distinct_sumByCategory [of xs] by simp
  then have "getOrZero (sumByCategory xs) k = v"
    by (simp add: getOrZero_def)
  moreover from kv have "k \<in> fst ` set (sumByCategory xs)"
    by force
  ultimately show "k \<in> category ` set xs
      \<and> v = sum_list (map amount (filter (\<lambda>t. category t = k) xs))"
    by (simp add: getOrZero_sumByCategory keys_sumByCategory)
next
  assume r: "k \<in> category ` set xs
      \<and> v = sum_list (map amount (filter (\<lambda>t. category t = k) xs))"
  then have "k \<in> fst ` set (sumByCategory xs)"
    by (simp add: keys_sumByCategory)
  then obtain w where w: "(k, w) \<in> set (sumByCategory xs)"
    by auto
  then have "map_of (sumByCategory xs) k = Some w"
    using distinct_sumByCategory [of xs] by simp
  then have "getOrZero (sumByCategory xs) k = w"
    by (simp add: getOrZero_def)
  with r w show "(k, v) \<in> set (sumByCategory xs)"
    by (simp add: getOrZero_sumByCategory)
qed

lemma in_budgetAlertFor:
  "a \<in> set (budgetAlertFor bl e) \<longleftrightarrow>
   (\<exists>b. find (\<lambda>b. limit_category b = fst e) bl = Some b
        \<and> snd e > monthly_limit b
        \<and> a = \<lparr>alert_category = fst e, spent = snd e, budget = monthly_limit b,
                overBudget = snd e - monthly_limit b\<rparr>)"
  by (cases "find (\<lambda>b. limit_category b = fst e) bl") (auto simp: budgetAlertFor_def)

lemma in_budgetAlertsOf:
  "a \<in> set (budgetAlertsOf ts bl) \<longleftrightarrow>
   (\<exists>b. find (\<lambda>b. limit_category b = alert_category a) bl = Some b
        \<and> alert_category a \<in> category ` set (filter (\<lambda>t. tx_type t = expense) ts)
        \<and> spent a = sum_list (map amount
            (filter (\<lambda>t. category t = alert_category a)
               (filter (\<lambda>t. tx_type t = expense) ts)))
        \<and> spent a > monthly_limit b
        \<and> budget a = monthly_limit b
        \<and> overBudget a = spent a - monthly_limit b)"
  (is "?L \<longleftrightarrow> ?R")
proof
  assume ?L
  then obtain e where e: "e \<in> set (sumByCategory (filter (\<lambda>t. tx_type t = expense) ts))"
      "a \<in> set (budgetAlertFor bl e)"
    by (auto simp: budgetAlertsOf_def categorySpending_def set_objectEntries)
  from e(2) obtain b where b: "find (\<lambda>b. limit_category b = fst e) bl = Some b"
      "snd e > monthly_limit b"
      "a = \<lparr>alert_category = fst e, spent = snd e, budget = monthly_limit b,
                overBudget = snd e - monthly_limit b\<rparr>"
    unfolding in_budgetAlertFor by blast
  from e(1) have s: "fst e \<in> category ` set (filter (\<lambda>t. tx_type t = expense) ts)"
    "snd e = sum_list (map amount
            (filter (\<lambda>t. category t = fst e) (filter (\<lambda>t. tx_type t = expense) ts)))"
    using entry_sumByCategory [of "fst e" "snd e"] by simp_all
  have f: "alert_category a = fst e" "spent a = snd e" "budget a = monthly_limit b"
    "overBudget a = snd e - monthly_limit b"
    by (simp_all add: b(3))
  show ?R
    using b(1,2) s f by metis
next
  assume ?R
  then obtain b where b: "find (\<lambda>b. limit_category b = alert_category a) bl = Some b"
      "alert_category a \<in> category ` set (filter (\<lambda>t. tx_type t = expense) ts)"
      "spent a = sum_list (map amount
            (filter (\<lambda>t. category t = alert_category a)
               (filter (\<lambda>t. tx_type t = expense) ts)))"
      "spent a > monthly_limit b" "budget a = monthly_limit b"
      "overBudget a = spent a - monthly_limit b"
    by blast
  have e: "(alert_category a, spent a)
             \<in> set (sumByCategory (filter (\<lambda>t. tx_type t = expense) ts))"
    unfolding entry_sumByCategory using b(2,3) by simp
  have "a = \<lparr>alert_category = alert_category a, spent = spent a, budget = monthly_limit b,
             overBudget = spent a - monthly_limit b\<rparr>"
    using b(5,6) by simp
  then have "a \<in> set (budgetAlertFor bl (alert_category a, spent a))"
    unfolding in_budgetAlertFor using b(1,4) by auto
  with e show ?L
    by (auto simp: budgetAlertsOf_def categorySpending_def set_objectEntries)
qed

text \<open>
  C1. An alert is raised for a category exactly when the expenses of that category over
  all the transactions, of every month, exceed the first limit set for it, and
  \<open>overBudget\<close> is that total minus the limit (lemma \<open>in_budgetAlertsOf\<close>). The limit is
  a monthly one, and the total is not the spending of the current month: seen on
  15 July 2025, 50 spent on food on 10 July and 100 on 10 May raise an alert of 30 over
  a limit of 120, while the spending of the current month, as the budget analysis of
  \<open>prepareTransactionSummary\<close> computes it, is 50 and does not exceed the limit.
\<close>

theorem C1_budget_alert_all_time_spending:
  "budgetAlerts
     (generateBasicInsights 1752580800000 0
        [mkTransaction 50 expense ''Food'' 1752105600000,
         mkTransaction 100 expense ''Food'' 1746835200000]
        [\<lparr>limit_category = ''Food'', monthly_limit = 120\<rparr>])
     = [\<lparr>alert_category = ''Food'', spent = 150, budget = 120, overBudget = 30\<rparr>]
   \<and> currentMonthCategorySpending 1752580800000 0
        [mkTransaction 50 expense ''Food'' 1752105600000,
         mkTransaction 100 expense ''Food'' 1746835200000]
     = [(''Food'', 50)]
   \<and> \<not> (50 :: rat) > 120"
proof -
  have a: "budgetAlertsOf
        [mkTransaction 50 expense ''Food'' 1752105600000,
         mkTransaction 100 expense ''Food'' 1746835200000]
        [\<lparr>limit_category = ''Food'', monthly_limit = 120\<rparr>]
     = [\<lparr>alert_category = ''Food'', spent = 150, budget = 120, overBudget = 30\<rparr>]"
    by (simp add: budgetAlertsOf_def categorySpending_def sumByCategory_def addAmount_def
          getOrZero_def mkTransaction_def objectEntries_def isArrayIndex_def isDigit_def
          budgetAlertFor_def)
  have d: "civilMonth 20284 = 7" "civilYear 20284 = 2025" "civilMonth 20279 = 7"
    "civilYear 20279 = 2025" "civilMonth 20218 = 5" "civilYear 20218 = 2025"
    "civilMonth 0 = 1" "civilYear 0 = 1970" "civilMonth (- 1) = 12" "civilYear (- 1) = 1969"
    "civilMonth 11016 = 2" "civilYear 11016 = 2000" "civilMonth 11017 = 3"
    by (simp_all add: civilMonth_def civilYear_def monthOfYear_def dayOfYear_def yearOfEra_def)
  have b: "currentMonthCategorySpending 1752580800000 0
        [mkTransaction 50 expense ''Food'' 1752105600000,
         mkTransaction 100 expense ''Food'' 1746835200000]
     = [(''Food'', 50)]"
    by (simp add: currentMonthCategorySpending_def currentMonthTransactions_def getMonth_def
          getFullYear_def msPerDay_def d mkTransaction_def sumByCategory_def addAmount_def
          getOrZero_def)
  show ?thesis
    by (simp add: generateBasicInsights_def a b)
qed

end
